theory Spec2Isabelle
  imports Complex_Main "HOL-Library.Sublist"
begin

section \<open>Python string operations used by the loader\<close>

text \<open>
  \<^verbatim>\<open>str(n)\<close> on an integer, \<^verbatim>\<open>s.replace(old, new)\<close>, \<^verbatim>\<open>s.lower()\<close> and
  \<^verbatim>\<open>s.endswith(t)\<close>, on byte strings. The loader applies them to the URL template and to
  the file name of the cache.
\<close>

definition digit :: "nat \<Rightarrow> char" where
  "digit k = ''0123456789'' ! (k mod 10)"

fun str_nat :: "nat \<Rightarrow> string" where
  "str_nat n = (if n < 10 then [digit n] else str_nat (n div 10) @ [digit n])"

declare str_nat.simps [simp del]

definition str_int :: "int \<Rightarrow> string" where
  "str_int i = (if i < 0 then CHR ''-'' # str_nat (nat (- i)) else str_nat (nat i))"

text \<open>
  \<^verbatim>\<open>replace\<close> scans from the left and replaces every non-overlapping occurrence. The
  counter is the number of characters of the current occurrence still to be skipped.
\<close>

fun replace_from :: "string \<Rightarrow> string \<Rightarrow> nat \<Rightarrow> string \<Rightarrow> string" where
  "replace_from old new k [] = []"
| "replace_from old new (Suc k) (c # cs) = replace_from old new k cs"
| "replace_from old new 0 (c # cs) =
     (if old \<noteq> [] \<and> prefix old (c # cs)
      then new @ replace_from old new (length old - 1) cs
      else c # replace_from old new 0 cs)"

definition replace :: "string \<Rightarrow> string \<Rightarrow> string \<Rightarrow> string" where
  "replace s old new = replace_from old new 0 s"

definition lower_char :: "char \<Rightarrow> char" where
  "lower_char c =
     (let n = (of_char c :: nat) in if 65 \<le> n \<and> n \<le> 90 then char_of (n + 32) else c)"

definition lower :: "string \<Rightarrow> string" where
  "lower s = map lower_char s"

definition endswith :: "string \<Rightarrow> string \<Rightarrow> bool" where
  "endswith s t = suffix t s"

section \<open>Data model of \<^verbatim>\<open>utils/load.py\<close>\<close>

text \<open>
  One line of the station's CSV report, as \<^verbatim>\<open>pd.read_csv\<close> delivers it. The loader reads
  the columns \<^verbatim>\<open>vehicle\<close>, \<^verbatim>\<open>faulty\<close>, \<^verbatim>\<open>total_time\<close> and \<^verbatim>\<open>direction\<close>; the remaining
  columns of the report are carried along unchanged.
\<close>

record csv_row =
  vehicle :: int
  faulty :: int
  total_time :: int
  direction :: int
  other_columns :: "int list"

text \<open>
  A row of the frame \<^verbatim>\<open>read_report\<close> returns: the CSV columns and the four columns the
  function adds. The date is the proleptic Gregorian ordinal of \<^verbatim>\<open>datetime.date\<close>.
\<close>

record raw_record = csv_row +
  date :: int
  cars :: int
  buses :: int
  trucks :: int

text \<open>
  A \<^verbatim>\<open>pd.DataFrame\<close> is the list of its rows, in row order; \<^verbatim>\<open>df.empty\<close> is \<open>df = []\<close>.
  The row index is not modelled.
\<close>

type_synonym dataframe = "raw_record list"

datatype assertion =
    HourFromIncorrect
  | HourToIncorrect
  | HourOrderIncorrect
  | DayIncorrect
  | YearIncorrect
  | DirectionIncorrect
  | FilenameWrong
  | DataNotLoaded

text \<open>
  The exceptions a call can end with: a failed \<^verbatim>\<open>assert\<close> of the loader, the two
  exceptions of \<^verbatim>\<open>datetime\<close>, the read of an attribute that was never set, and an exception
  raised inside \<^verbatim>\<open>requests\<close>, \<^verbatim>\<open>pandas\<close>, \<^verbatim>\<open>pyarrow\<close> or \<^verbatim>\<open>pystoned\<close> (a connection error,
  an HTTP error, a parser error, a solver failure), which the code never catches.
\<close>

datatype error =
    AssertionError assertion
  | ValueError
  | OverflowError
  | AttributeError
  | LibraryError string

text \<open>
  What the loader writes to the console and to the warning channel. The elapsed times that
  the messages print are left out.
\<close>

datatype message =
    TryingToLoad int int
  | DownloadSuccessful int int int
  | DataSavedTo string
  | TimeSpent
  | DataDoesNotExist int int int
  | ImpossibleToSave
  | LoadingSuccessful nat nat

text \<open>The observable effects of a call, in the order in which they happen.\<close>

datatype event =
    Print message
  | Warn message
  | HttpGet string
  | ReadCsv string
  | ToParquet string dataframe

text \<open>
  The world outside the loader: the status code \<^verbatim>\<open>requests.get(url).status_code\<close> gives
  for a URL, the rows \<^verbatim>\<open>pd.read_csv(url, ...)\<close> parses from it, and the outcome of
  \<^verbatim>\<open>df.to_parquet(name, ...)\<close>. Each of the three calls may raise instead.
\<close>

record server =
  status_code :: "string \<Rightarrow> error + int"
  read_csv :: "string \<Rightarrow> error + csv_row list"
  to_parquet :: "string \<Rightarrow> dataframe \<Rightarrow> error option"

section \<open>\<^verbatim>\<open>read_report\<close>\<close>

text \<open>
  The six \<^verbatim>\<open>assert\<close> statements of lines 72 to 77, in their order. The parameter
  \<^verbatim>\<open>direction\<close> is written \<open>dir\<close> throughout, the column keeps the name.
\<close>

definition check_report_args :: "int \<Rightarrow> int \<Rightarrow> int \<Rightarrow> int \<Rightarrow> int \<Rightarrow> assertion option" where
  "check_report_args year day dir hour_from hour_to =
     (if \<not> (0 \<le> hour_from \<and> hour_from < 24) then Some HourFromIncorrect
      else if \<not> (0 < hour_to \<and> hour_to \<le> 24) then Some HourToIncorrect
      else if \<not> hour_from < hour_to then Some HourOrderIncorrect
      else if \<not> (1 \<le> day \<and> day \<le> 366) then Some DayIncorrect
      else if \<not> 1995 \<le> year then Some YearIncorrect
      else if \<not> (dir = 1 \<or> dir = 2) then Some DirectionIncorrect
      else None)"

text \<open>
  Lines 90 to 94: the URL of the report, from the template \<^verbatim>\<open>URL_FINTRAFFIC\<close>. The template
  is a constant of \<^verbatim>\<open>utils/constant.py\<close> and a parameter here.
\<close>

definition make_url :: "string \<Rightarrow> int \<Rightarrow> int \<Rightarrow> int \<Rightarrow> string" where
  "make_url url tms_id year day =
     replace (replace (replace url ''TMS'' (str_int tms_id))
                ''YY'' (take 2 (drop 2 (str_int year))))
       ''DD'' (str_int day)"

text \<open>
  Line 103: \<^verbatim>\<open>datetime.date(year, 1, 1) + datetime.timedelta(day - 1)\<close>. The constructor
  raises \<^verbatim>\<open>ValueError\<close> outside the years 1 to 9999, the addition raises \<^verbatim>\<open>OverflowError\<close>
  when the sum leaves the range of \<^verbatim>\<open>date\<close>.
\<close>

definition days_before_year :: "int \<Rightarrow> int" where
  "days_before_year y = (y - 1) * 365 + (y - 1) div 4 - (y - 1) div 100 + (y - 1) div 400"

definition date_of :: "int \<Rightarrow> int \<Rightarrow> error + int" where
  "date_of year day =
     (if year < 1 \<or> 9999 < year then Inl ValueError
      else let ordinal = days_before_year year + 1 + (day - 1)
           in if ordinal < 1 \<or> 3652059 < ordinal then Inl OverflowError else Inr ordinal)"

text \<open>Lines 103 to 110: the date and the three vehicle counts of one row.\<close>

definition add_columns :: "int \<Rightarrow> csv_row \<Rightarrow> raw_record" where
  "add_columns d r =
     \<lparr> vehicle = vehicle r, faulty = faulty r, total_time = total_time r,
       direction = direction r, other_columns = other_columns r,
       date = d,
       cars = (if vehicle r = 1 then 1 else 0),
       buses = (if vehicle r = 3 then 1 else 0),
       trucks = (if vehicle r = 2 \<or> vehicle r = 4 \<or> vehicle r = 5 \<or> vehicle r = 6 \<or> vehicle r = 7
                 then 1 else 0) \<rparr>"

text \<open>Lines 112 to 121: the four row selections, in their order.\<close>

definition select_rows :: "int \<Rightarrow> int \<Rightarrow> int \<Rightarrow> bool \<Rightarrow> dataframe \<Rightarrow> dataframe" where
  "select_rows dir hour_from hour_to delete_if_faulty df =
     (let df1 = (if delete_if_faulty then filter (\<lambda>r. faulty r \<noteq> 1) df else df);
          df2 = filter (\<lambda>r. hour_from * 60 * 60 * 100 \<le> total_time r) df1;
          df3 = filter (\<lambda>r. total_time r \<le> hour_to * 60 * 60 * 100) df2
      in filter (\<lambda>r. direction r = dir) df3)"

text \<open>
  Lines 130 to 135, and 266 to 271 of \<^verbatim>\<open>read_several_reports\<close>: the optional save. It
  gives the exception it ends with, if any, and its effects.
\<close>

definition save_frame :: "server \<Rightarrow> string option \<Rightarrow> dataframe \<Rightarrow> error option \<times> event list" where
  "save_frame srv save_name df =
     (case save_name of
        None \<Rightarrow> (None, [])
      | Some name \<Rightarrow>
          if \<not> endswith (lower name) ''.gzip'' then (Some (AssertionError FilenameWrong), [])
          else (case to_parquet srv name df of
                  Some e \<Rightarrow> (Some e, [ToParquet name df])
                | None \<Rightarrow> (None, [ToParquet name df, Print (DataSavedTo name)])))"

text \<open>
  \<^verbatim>\<open>read_report\<close>, lines 64 to 156. The result is the returned frame or the exception the
  call ends with, and the effects up to that point.
\<close>

definition read_report ::
  "string \<Rightarrow> server \<Rightarrow> int \<Rightarrow> int \<Rightarrow> int \<Rightarrow> int \<Rightarrow> int \<Rightarrow> int \<Rightarrow> bool \<Rightarrow> string option
   \<Rightarrow> (error + dataframe) \<times> event list" where
  "read_report url_fintraffic srv tms_id year day dir hour_from hour_to delete_if_faulty save_name =
     (case check_report_args year day dir hour_from hour_to of
        Some a \<Rightarrow> (Inl (AssertionError a), [Print (TryingToLoad day year)])
      | None \<Rightarrow>
          let url = make_url url_fintraffic tms_id year day in
          (case status_code srv url of
             Inl e \<Rightarrow> (Inl e, [Print (TryingToLoad day year), HttpGet url])
           | Inr code \<Rightarrow>
               if code \<noteq> 404 then
                 (case read_csv srv url of
                    Inl e \<Rightarrow> (Inl e, [Print (TryingToLoad day year), HttpGet url, ReadCsv url])
                  | Inr rows \<Rightarrow>
                      (case date_of year day of
                         Inl e \<Rightarrow>
                           (Inl e, [Print (TryingToLoad day year), HttpGet url, ReadCsv url])
                       | Inr d \<Rightarrow>
                           let df = select_rows dir hour_from hour_to delete_if_faulty
                                      (map (add_columns d) rows);
                               saved = save_frame srv save_name df
                           in ((case fst saved of Some e \<Rightarrow> Inl e | None \<Rightarrow> Inr df),
                               [Print (TryingToLoad day year), HttpGet url, ReadCsv url,
                                Print (DownloadSuccessful tms_id day year)] @ snd saved)))
               else
                 (Inr [],
                  [Print (TryingToLoad day year), HttpGet url, Print TimeSpent,
                   Warn (DataDoesNotExist tms_id day year)]
                  @ (if save_name \<noteq> None then [Warn ImpossibleToSave] else []))))"

section \<open>\<^verbatim>\<open>read_several_reports\<close>\<close>

text \<open>The four \<^verbatim>\<open>assert\<close> statements of lines 215 to 218.\<close>

definition check_several_args :: "int \<Rightarrow> int \<Rightarrow> int \<Rightarrow> assertion option" where
  "check_several_args dir hour_from hour_to =
     (if \<not> (0 \<le> hour_from \<and> hour_from < 24) then Some HourFromIncorrect
      else if \<not> (0 < hour_to \<and> hour_to \<le> 24) then Some HourToIncorrect
      else if \<not> hour_from < hour_to then Some HourOrderIncorrect
      else if \<not> (dir = 1 \<or> dir = 2) then Some DirectionIncorrect
      else None)"

text \<open>
  The body of the loop, lines 223 to 253, on the frame and the counter: one day
  \<^verbatim>\<open>value = [year, day]\<close> is read, always with \<^verbatim>\<open>save_name=None\<close>.
\<close>

definition load_day ::
  "string \<Rightarrow> server \<Rightarrow> int \<Rightarrow> int \<Rightarrow> int \<Rightarrow> int \<Rightarrow> bool \<Rightarrow> int \<times> int \<Rightarrow> dataframe \<times> nat
   \<Rightarrow> (error + dataframe \<times> nat) \<times> event list" where
  "load_day url_fintraffic srv tms_id dir hour_from hour_to delete_if_faulty value st =
     (case st of (df, counter) \<Rightarrow>
        if df = [] then
          (case read_report url_fintraffic srv tms_id (fst value) (snd value) dir hour_from hour_to
                  delete_if_faulty None of
             (Inl e, evs) \<Rightarrow> (Inl e, evs)
           | (Inr read_df, evs) \<Rightarrow>
               if read_df \<noteq> [] then (Inr (read_df, counter + 1), evs) else (Inr (df, counter), evs))
        else
          (case read_report url_fintraffic srv tms_id (fst value) (snd value) dir hour_from hour_to
                  delete_if_faulty None of
             (Inl e, evs) \<Rightarrow> (Inl e, evs)
           | (Inr read_df, evs) \<Rightarrow>
               if read_df \<noteq> [] then (Inr (df @ read_df, counter + 1), evs)
               else (Inr (df, counter), evs)))"

text \<open>The loop of line 222 over \<^verbatim>\<open>year_day_list\<close>; an exception ends it.\<close>

fun load_days ::
  "string \<Rightarrow> server \<Rightarrow> int \<Rightarrow> int \<Rightarrow> int \<Rightarrow> int \<Rightarrow> bool \<Rightarrow> (int \<times> int) list \<Rightarrow> dataframe \<times> nat
   \<Rightarrow> (error + dataframe \<times> nat) \<times> event list" where
  "load_days url_fintraffic srv tms_id dir hour_from hour_to delete_if_faulty [] st = (Inr st, [])"
| "load_days url_fintraffic srv tms_id dir hour_from hour_to delete_if_faulty (value # rest) st =
     (case load_day url_fintraffic srv tms_id dir hour_from hour_to delete_if_faulty value st of
        (Inl e, evs) \<Rightarrow> (Inl e, evs)
      | (Inr st', evs) \<Rightarrow>
          (case load_days url_fintraffic srv tms_id dir hour_from hour_to delete_if_faulty rest st' of
             (res, evs') \<Rightarrow> (res, evs @ evs')))"

text \<open>\<^verbatim>\<open>read_several_reports\<close>, lines 204 to 273.\<close>

definition read_several_reports ::
  "string \<Rightarrow> server \<Rightarrow> int \<Rightarrow> (int \<times> int) list \<Rightarrow> int \<Rightarrow> int \<Rightarrow> int \<Rightarrow> bool \<Rightarrow> string option
   \<Rightarrow> (error + dataframe) \<times> event list" where
  "read_several_reports url_fintraffic srv tms_id year_day_list dir hour_from hour_to
       delete_if_faulty save_name =
     (case check_several_args dir hour_from hour_to of
        Some a \<Rightarrow> (Inl (AssertionError a), [])
      | None \<Rightarrow>
          (case load_days url_fintraffic srv tms_id dir hour_from hour_to delete_if_faulty
                  year_day_list ([], 0) of
             (Inl e, evs) \<Rightarrow> (Inl e, evs)
           | (Inr (df, counter), evs) \<Rightarrow>
               if df = [] then (Inl (AssertionError DataNotLoaded), evs)
               else
                 let saved = save_frame srv save_name df
                 in ((case fst saved of Some e \<Rightarrow> Inl e | None \<Rightarrow> Inr df),
                     evs @ [Print (LoadingSuccessful counter (length year_day_list))]
                       @ snd saved)))"

section \<open>\<^verbatim>\<open>FintrafficTMS.weighted_model\<close> of \<^verbatim>\<open>fintraffic.py\<close>\<close>

text \<open>
  The solver object \<^verbatim>\<open>wCQER.wCQR\<close> of \<^verbatim>\<open>pystoned\<close>: the data and the quantile it was built
  with, the lower bound of its variable \<^verbatim>\<open>__model__.beta\<close> (\<open>None\<close> is unbounded below), and
  the frontier once it is solved.
\<close>

record cqr_model =
  model_y :: "real list"
  model_x :: "real list"
  model_w :: "real list"
  model_tau :: real
  beta_lb :: "real option"
  frontier :: "real list option"

text \<open>
  The library: the constructor \<^verbatim>\<open>wCQER.wCQR(y, x, w, tau)\<close> and \<^verbatim>\<open>model.optimize(email)\<close>,
  which gives the solved model; \<^verbatim>\<open>model.optimize()\<close> is the call with no address. Either may
  raise.
\<close>

record solver =
  wCQR :: "real list \<Rightarrow> real list \<Rightarrow> real list \<Rightarrow> real \<Rightarrow> error + cqr_model"
  optimize :: "cqr_model \<Rightarrow> string option \<Rightarrow> error + cqr_model"

text \<open>The calls into the library, in the order in which they are made.\<close>

datatype solver_call =
    Construct "real list" "real list" "real list" real
  | SetLb "real option"
  | Optimize cqr_model "string option"

text \<open>The two columns of \<^verbatim>\<open>self.bag_data\<close> that the method reads.\<close>

record bag_frame =
  centroid_density :: "real list"
  centroid_flow :: "real list"

text \<open>
  The attributes of the station object that the method reads or writes. \<^verbatim>\<open>bag_data\<close> and
  \<^verbatim>\<open>weight\<close> exist only after \<^verbatim>\<open>bagging\<close> has run.
\<close>

record fintraffic_tms =
  tau_list :: "real list"
  bag_data :: "bag_frame option"
  weight :: "real list option"
  bagged_model :: "cqr_model list"
  time_weighted :: "real list"

text \<open>
  The loop of lines 77 to 92. \<open>clock\<close> gives the readings of \<^verbatim>\<open>time.perf_counter()\<close> by their
  number and \<open>n\<close> counts the readings taken so far. The result is the exception the loop ends
  with, if any, the object as it is then, and the calls made.
\<close>

fun fit_taus ::
  "solver \<Rightarrow> (nat \<Rightarrow> real) \<Rightarrow> string option \<Rightarrow> real list \<Rightarrow> nat \<Rightarrow> fintraffic_tms
   \<Rightarrow> error option \<times> fintraffic_tms \<times> solver_call list" where
  "fit_taus slv clock email [] n self = (None, self, [])"
| "fit_taus slv clock email (tau # taus) n self =
     (let start_time = clock n in
      case bag_data self of
        None \<Rightarrow> (Some AttributeError, self, [])
      | Some bag \<Rightarrow>
          (case weight self of
             None \<Rightarrow> (Some AttributeError, self, [])
           | Some wt \<Rightarrow>
               (case wCQR slv (centroid_flow bag) (centroid_density bag) wt tau of
                  Inl e \<Rightarrow>
                    (Some e, self, [Construct (centroid_flow bag) (centroid_density bag) wt tau])
                | Inr model \<Rightarrow>
                    (case optimize slv (model\<lparr>beta_lb := None\<rparr>) email of
                       Inl e \<Rightarrow>
                         (Some e, self,
                          [Construct (centroid_flow bag) (centroid_density bag) wt tau,
                           SetLb None, Optimize (model\<lparr>beta_lb := None\<rparr>) email])
                     | Inr solved \<Rightarrow>
                         let self1 = self\<lparr>bagged_model := bagged_model self @ [solved]\<rparr>;
                             end_time = clock (n + 1);
                             self2 = self1\<lparr>time_weighted :=
                                       time_weighted self1 @ [end_time - start_time]\<rparr>
                         in (case fit_taus slv clock email taus (n + 2) self2 of
                               (err, self', calls) \<Rightarrow>
                                 (err, self',
                                  [Construct (centroid_flow bag) (centroid_density bag) wt tau,
                                   SetLb None, Optimize (model\<lparr>beta_lb := None\<rparr>) email]
                                  @ calls))))))"

text \<open>\<^verbatim>\<open>weighted_model\<close>, lines 72 to 92; \<open>tau_arg\<close> is its parameter \<^verbatim>\<open>tau_list\<close>.\<close>

definition weighted_model ::
  "solver \<Rightarrow> (nat \<Rightarrow> real) \<Rightarrow> real list option \<Rightarrow> string option \<Rightarrow> nat \<Rightarrow> fintraffic_tms
   \<Rightarrow> error option \<times> fintraffic_tms \<times> solver_call list" where
  "weighted_model slv clock tau_arg email n self =
     (let self0 = self\<lparr>bagged_model := [], time_weighted := []\<rparr>;
          taus = (case tau_arg of None \<Rightarrow> tau_list self0 | Some l \<Rightarrow> l)
      in fit_taus slv clock email taus n self0)"

section \<open>Network retrievals among the effects\<close>

text \<open>The two effects that go to the network: the status request and the download.\<close>

definition is_retrieval :: "event \<Rightarrow> bool" where
  "is_retrieval ev = (case ev of HttpGet u \<Rightarrow> True | ReadCsv u \<Rightarrow> True | _ \<Rightarrow> False)"

section \<open>Test inputs\<close>

text \<open>
  A URL template with the three place holders, and a report of four vehicles: a car in
  direction 1 at 20:00:00.00, a truck in direction 2, a faulty bus, and a vehicle of class 9.
\<close>

definition demo_url :: string where
  "demo_url = ''lamraw_TMS_YY_DD.csv''"

definition demo_rows :: "csv_row list" where
  "demo_rows =
     [\<lparr>vehicle = 1, faulty = 0, total_time = 7200000, direction = 1, other_columns = []\<rparr>,
      \<lparr>vehicle = 2, faulty = 0, total_time = 3000000, direction = 2, other_columns = []\<rparr>,
      \<lparr>vehicle = 3, faulty = 1, total_time = 3600000, direction = 1, other_columns = []\<rparr>,
      \<lparr>vehicle = 9, faulty = 0, total_time = 2880000, direction = 1, other_columns = []\<rparr>]"

text \<open>
  A server of station 123 in 2021: day 2 does not exist (status 404), day 3 answers with
  status 500 and cannot be read, every other day holds the report above.
\<close>

definition demo_server :: server where
  "demo_server =
     \<lparr>status_code = (\<lambda>u. if u = ''lamraw_123_21_2.csv'' then Inr 404
                          else if u = ''lamraw_123_21_3.csv'' then Inr 500 else Inr 200),
      read_csv = (\<lambda>u. if u = ''lamraw_123_21_3.csv'' then Inl (LibraryError ''HTTP Error 500'')
                       else Inr demo_rows),
      to_parquet = (\<lambda>name df. None)\<rparr>"

text \<open>The rows of the demo report that a read of direction 1 from 6 to 20 keeps, on day 1.\<close>

definition demo_frame :: dataframe where
  "demo_frame =
     [\<lparr>vehicle = 1, faulty = 0, total_time = 7200000, direction = 1, other_columns = [],
       date = 737791, cars = 1, buses = 0, trucks = 0\<rparr>,
      \<lparr>vehicle = 9, faulty = 0, total_time = 2880000, direction = 1, other_columns = [],
       date = 737791, cars = 0, buses = 0, trucks = 0\<rparr>]"

text \<open>
  Two servers that differ in what they hold: on the first every day has one record, on the
  second every day but day 2 has the same record twice and day 2 does not exist.
\<close>

definition one_row :: csv_row where
  "one_row = \<lparr>vehicle = 1, faulty = 0, total_time = 3000000, direction = 1, other_columns = []\<rparr>"

definition server_single :: server where
  "server_single =
     \<lparr>status_code = (\<lambda>u. Inr 200), read_csv = (\<lambda>u. Inr [one_row]),
      to_parquet = (\<lambda>name df. None)\<rparr>"

definition server_double :: server where
  "server_double =
     \<lparr>status_code = (\<lambda>u. if u = ''lamraw_123_21_2.csv'' then Inr 404 else Inr 200),
      read_csv = (\<lambda>u. Inr [one_row, one_row]),
      to_parquet = (\<lambda>name df. None)\<rparr>"

text \<open>
  A solver that builds the model with the lower bound 0 and solves it with the responses as
  the frontier, a station object after bagging, and a clock that advances by one per reading.
\<close>

definition demo_solver :: solver where
  "demo_solver =
     \<lparr>wCQR = (\<lambda>ys xs ws t. Inr \<lparr>model_y = ys, model_x = xs, model_w = ws, model_tau = t,
                                    beta_lb = Some 0, frontier = None\<rparr>),
      optimize = (\<lambda>m email. Inr (m\<lparr>frontier := Some (model_y m)\<rparr>))\<rparr>"

definition demo_tms :: fintraffic_tms where
  "demo_tms =
     \<lparr>tau_list = [1 / 2],
      bag_data = Some \<lparr>centroid_density = [10, 20], centroid_flow = [300, 400]\<rparr>,
      weight = Some [1 / 2, 1 / 2],
      bagged_model = [], time_weighted = []\<rparr>"

definition demo_clock :: "nat \<Rightarrow> real" where
  "demo_clock k = real k"

section \<open>Properties of \<^verbatim>\<open>read_report\<close>\<close>

lemma select_rows_set:
  "set (select_rows dir hour_from hour_to delete_if_faulty df) =
     {r \<in> set df. (delete_if_faulty \<longrightarrow> faulty r \<noteq> 1) \<and> hour_from * 60 * 60 * 100 \<le> total_time r
        \<and> total_time r \<le> hour_to * 60 * 60 * 100 \<and> direction r = dir}"
  by (auto simp: select_rows_def Let_def)

text \<open>A returned frame is empty or the selection from the rows of the report.\<close>

lemma read_report_frame:
  assumes "fst (read_report url_fintraffic srv tms_id year day dir hour_from hour_to
                  delete_if_faulty save_name) = Inr df"
  shows "df = [] \<or>
         (\<exists>d rows. df = select_rows dir hour_from hour_to delete_if_faulty
                          (map (add_columns d) rows))"
  using assms
  by (auto simp: read_report_def Let_def split: option.splits sum.splits if_splits)

lemma add_columns_table:
  "cars (add_columns d c) = (if vehicle c = 1 then 1 else 0)"
  "buses (add_columns d c) = (if vehicle c = 3 then 1 else 0)"
  "trucks (add_columns d c) = (if vehicle c \<in> {2, 4, 5, 6, 7} then 1 else 0)"
  "vehicle (add_columns d c) = vehicle c"
  by (simp_all add: add_columns_def)

lemma demo_read_day1:
  "fst (read_report demo_url demo_server 123 2021 1 1 6 20 True None) = Inr demo_frame"
  by code_simp

text \<open>
  What the two time selections guarantee: both ends of the window are closed.
\<close>

lemma read_report_window_closed:
  assumes "fst (read_report url_fintraffic srv tms_id year day dir hour_from hour_to
                  delete_if_faulty save_name) = Inr df"
    and "r \<in> set df"
  shows "hour_from * 360000 \<le> total_time r \<and> total_time r \<le> hour_to * 360000"
proof -
  from read_report_frame [OF assms(1)] assms(2)
  obtain d rows where
    "r \<in> set (select_rows dir hour_from hour_to delete_if_faulty (map (add_columns d) rows))"
    by auto
  then show ?thesis by (simp add: select_rows_set)
qed

text \<open>
  C1. The claim is that no returned record has \<open>total_time\<close> equal to or above
  \<open>hour_to * 360000\<close>. The selection of line 118 is \<^verbatim>\<open><=\<close>: on the demo report, read from 6
  to 20, the car recorded at 20:00:00.00 (\<open>total_time = 20 * 360000\<close>) is returned.
\<close>

theorem read_report_keeps_hour_to_instant:
  "fst (read_report demo_url demo_server 123 2021 1 1 6 20 True None) = Inr demo_frame \<and>
   total_time (hd demo_frame) = 20 * 360000"
  by code_simp

text \<open>
  C4. Every record of a frame that \<^verbatim>\<open>read_report\<close> returns has the requested direction,
  and when \<^verbatim>\<open>delete_if_faulty\<close> is true none has the faulty flag 1.
\<close>

theorem read_report_direction_and_faulty:
  assumes "fst (read_report url_fintraffic srv tms_id year day dir hour_from hour_to
                  delete_if_faulty save_name) = Inr df"
    and "r \<in> set df"
  shows "direction r = dir \<and> (delete_if_faulty \<longrightarrow> faulty r \<noteq> 1)"
proof -
  from read_report_frame [OF assms(1)] assms(2)
  obtain d rows where
    "r \<in> set (select_rows dir hour_from hour_to delete_if_faulty (map (add_columns d) rows))"
    by auto
  then show ?thesis by (simp add: select_rows_set)
qed

theorem read_report_direction_and_faulty_witness:
  "fst (read_report demo_url demo_server 123 2021 1 1 6 20 True None) = Inr demo_frame \<and>
   hd demo_frame \<in> set demo_frame \<and>
   direction (hd demo_frame) = 1 \<and> faulty (hd demo_frame) \<noteq> 1"
proof -
  have mem: "hd demo_frame \<in> set demo_frame"
    by (simp add: demo_frame_def)
  from read_report_direction_and_faulty [OF demo_read_day1 mem]
  show ?thesis using demo_read_day1 mem by simp
qed

text \<open>
  C5. In every record of a returned frame the three counts follow the class code by the
  fixed table: car for class 1, bus for class 3, truck for the classes 2, 4, 5, 6 and 7, and
  none of the three for any other class.
\<close>

theorem read_report_vehicle_table:
  assumes "fst (read_report url_fintraffic srv tms_id year day dir hour_from hour_to
                  delete_if_faulty save_name) = Inr df"
    and "r \<in> set df"
  shows "(cars r = 1 \<longleftrightarrow> vehicle r = 1) \<and> (buses r = 1 \<longleftrightarrow> vehicle r = 3) \<and>
         (trucks r = 1 \<longleftrightarrow> vehicle r \<in> {2, 4, 5, 6, 7}) \<and>
         cars r \<in> {0, 1} \<and> buses r \<in> {0, 1} \<and> trucks r \<in> {0, 1} \<and>
         (vehicle r \<notin> {1, 2, 3, 4, 5, 6, 7} \<longrightarrow> cars r = 0 \<and> buses r = 0 \<and> trucks r = 0)"
proof -
  from read_report_frame [OF assms(1)] assms(2)
  obtain d rows where
    "r \<in> set (select_rows dir hour_from hour_to delete_if_faulty (map (add_columns d) rows))"
    by auto
  then obtain c where "r = add_columns d c"
    by (auto simp: select_rows_set)
  then show ?thesis by (simp add: add_columns_table)
qed

theorem read_report_vehicle_table_witness:
  "fst (read_report demo_url demo_server 123 2021 1 1 6 20 True None) = Inr demo_frame \<and>
   last demo_frame \<in> set demo_frame \<and> vehicle (last demo_frame) = 9 \<and>
   cars (last demo_frame) = 0 \<and> buses (last demo_frame) = 0 \<and> trucks (last demo_frame) = 0"
proof -
  have mem: "last demo_frame \<in> set demo_frame"
    by (simp add: demo_frame_def)
  from read_report_vehicle_table [OF demo_read_day1 mem]
  show ?thesis using demo_read_day1 mem by (simp add: demo_frame_def)
qed

section \<open>Properties of \<^verbatim>\<open>read_several_reports\<close>\<close>

text \<open>One turn of the loop, when the day's read returns and when it raises.\<close>

lemma load_day_returns:
  assumes "fst (read_report url_fintraffic srv tms_id (fst v) (snd v) dir hour_from hour_to
                  delete_if_faulty None) = Inr read_df"
  shows "load_day url_fintraffic srv tms_id dir hour_from hour_to delete_if_faulty v (df, counter) =
           (Inr (df @ read_df, counter + (if read_df \<noteq> [] then 1 else 0)),
            snd (read_report url_fintraffic srv tms_id (fst v) (snd v) dir hour_from hour_to
                   delete_if_faulty None))"
  using assms by (auto simp: load_day_def split: prod.splits sum.splits)

lemma load_day_raises:
  assumes "fst (read_report url_fintraffic srv tms_id (fst v) (snd v) dir hour_from hour_to
                  delete_if_faulty None) = Inl e"
  shows "load_day url_fintraffic srv tms_id dir hour_from hour_to delete_if_faulty v st =
           (Inl e,
            snd (read_report url_fintraffic srv tms_id (fst v) (snd v) dir hour_from hour_to
                   delete_if_faulty None))"
  using assms by (auto simp: load_day_def split: prod.splits sum.splits)

text \<open>
  When every day's read returns, the loop ends with the days' frames appended in the order of
  the list and with the number of non-empty ones added to the counter.
\<close>

lemma load_days_returns:
  assumes "map (\<lambda>v. fst (read_report url_fintraffic srv tms_id (fst v) (snd v) dir hour_from
                           hour_to delete_if_faulty None)) year_day_list = map Inr dfs"
  shows "fst (load_days url_fintraffic srv tms_id dir hour_from hour_to delete_if_faulty
                year_day_list (df, counter)) =
           Inr (df @ concat dfs, counter + length (filter (\<lambda>d. d \<noteq> []) dfs))"
  using assms
proof (induction year_day_list arbitrary: dfs df counter)
  case Nil
  then show ?case by simp
next
  case (Cons v rest)
  then obtain d ds where dfs: "dfs = d # ds"
    and hd: "fst (read_report url_fintraffic srv tms_id (fst v) (snd v) dir hour_from hour_to
                    delete_if_faulty None) = Inr d"
    and tl: "map (\<lambda>v. fst (read_report url_fintraffic srv tms_id (fst v) (snd v) dir hour_from
                           hour_to delete_if_faulty None)) rest = map Inr ds"
    by (cases dfs) auto
  show ?case
    using Cons.IH [OF tl, of "df @ d" "counter + (if d \<noteq> [] then 1 else 0)"]
    by (cases "d = []") (auto simp: load_day_returns [OF hd] dfs split: prod.splits)
qed

text \<open>The loop over a list in two parts is the loop over the first part, then the second.\<close>

lemma load_days_append:
  "load_days url_fintraffic srv tms_id dir hour_from hour_to delete_if_faulty (pre @ rest) st =
     (case load_days url_fintraffic srv tms_id dir hour_from hour_to delete_if_faulty pre st of
        (Inl e, evs) \<Rightarrow> (Inl e, evs)
      | (Inr st', evs) \<Rightarrow>
          (case load_days url_fintraffic srv tms_id dir hour_from hour_to delete_if_faulty rest st' of
             (res, evs') \<Rightarrow> (res, evs @ evs')))"
  by (induction pre arbitrary: st) (auto split: prod.splits sum.splits)



lemma demo_read_day2:
  "fst (read_report demo_url demo_server 123 2021 2 1 6 20 True None) = Inr []"
  by code_simp

lemma demo_args_pass: "check_several_args 1 6 20 = None"
  by (simp add: check_several_args_def)

lemma demo_days_1_2:
  "map (\<lambda>v. fst (read_report demo_url demo_server 123 (fst v) (snd v) 1 6 20 True None))
     [(2021, 1), (2021, 2)] = map Inr [demo_frame, []]"
  by code_simp


lemma load_days_all_empty:
  assumes "\<forall>v \<in> set year_day_list.
             fst (read_report url_fintraffic srv tms_id (fst v) (snd v) dir hour_from hour_to
                    delete_if_faulty None) = Inr []"
  shows "fst (load_days url_fintraffic srv tms_id dir hour_from hour_to delete_if_faulty
                year_day_list ([], 0)) = Inr ([], 0)"
proof -
  have "map (\<lambda>v. fst (read_report url_fintraffic srv tms_id (fst v) (snd v) dir hour_from
                        hour_to delete_if_faulty None)) year_day_list =
          map Inr (replicate (length year_day_list) [])"
    using assms by (induction year_day_list) auto
  from load_days_returns [OF this, of "[]" 0] show ?thesis
    by (simp add: concat_replicate_trivial)
qed

text \<open>
  C10. With an empty \<^verbatim>\<open>year_day_list\<close> and arguments that pass the asserts, the call raises
  the assertion error of line 255, "data was not loaded", and that is the error of every call
  whose days are all empty.
\<close>

theorem read_several_reports_empty_list:
  assumes "check_several_args dir hour_from hour_to = None"
  shows "fst (read_several_reports url_fintraffic srv tms_id [] dir hour_from hour_to
                delete_if_faulty save_name) = Inl (AssertionError DataNotLoaded) \<and>
         (\<forall>year_day_list.
            (\<forall>v \<in> set year_day_list.
               fst (read_report url_fintraffic srv tms_id (fst v) (snd v) dir hour_from hour_to
                      delete_if_faulty None) = Inr []) \<longrightarrow>
            fst (read_several_reports url_fintraffic srv tms_id year_day_list dir hour_from
                   hour_to delete_if_faulty save_name) =
            fst (read_several_reports url_fintraffic srv tms_id [] dir hour_from hour_to
                   delete_if_faulty save_name))"
proof -
  have all_empty: "fst (read_several_reports url_fintraffic srv tms_id l dir hour_from hour_to
                 delete_if_faulty save_name) = Inl (AssertionError DataNotLoaded)"
    if "\<forall>v \<in> set l. fst (read_report url_fintraffic srv tms_id (fst v) (snd v) dir hour_from
                              hour_to delete_if_faulty None) = Inr []" for l
    using load_days_all_empty [OF that] assms
    by (auto simp: read_several_reports_def split: prod.splits sum.splits)
  from all_empty [of "[]"] all_empty show ?thesis by simp
qed

theorem read_several_reports_empty_list_witness:
  "check_several_args 1 6 20 = None \<and>
   fst (read_several_reports demo_url demo_server 123 [] 1 6 20 True None) =
     Inl (AssertionError DataNotLoaded) \<and>
   fst (read_several_reports demo_url demo_server 123 [(2021, 2)] 1 6 20 True None) =
     Inl (AssertionError DataNotLoaded)"
proof -
  from read_several_reports_empty_list [OF demo_args_pass, of demo_url demo_server 123 True None]
  have e: "fst (read_several_reports demo_url demo_server 123 [] 1 6 20 True None) =
             Inl (AssertionError DataNotLoaded)"
    and a: "\<And>l. (\<forall>v \<in> set l. fst (read_report demo_url demo_server 123 (fst v) (snd v) 1 6 20
                                     True None) = Inr []) \<Longrightarrow>
              fst (read_several_reports demo_url demo_server 123 l 1 6 20 True None) =
              fst (read_several_reports demo_url demo_server 123 [] 1 6 20 True None)"
    by blast+
  have "fst (read_several_reports demo_url demo_server 123 [(2021, 2)] 1 6 20 True None) =
          Inl (AssertionError DataNotLoaded)"
    using a [of "[(2021, 2)]"] e demo_read_day2 by simp
  with e demo_args_pass show ?thesis by blast
qed

text \<open>
  C2. The claim is that the caller can obtain the number of days that yielded data from the
  value the function returns. The function returns the frame alone: with one record per day
  and day 1 requested twice, and with two equal records on day 1 and no day 2, the two calls
  return the same frame, and the first counts 2 of 2 days, the second 1 of 2.
\<close>

theorem read_several_reports_count_not_in_result:
  "fst (read_several_reports demo_url server_single 123 [(2021, 1), (2021, 1)] 1 6 20 True None) =
   fst (read_several_reports demo_url server_double 123 [(2021, 1), (2021, 2)] 1 6 20 True None) \<and>
   Print (LoadingSuccessful 2 2) \<in>
     set (snd (read_several_reports demo_url server_single 123 [(2021, 1), (2021, 1)] 1 6 20 True None)) \<and>
   Print (LoadingSuccessful 1 2) \<in>
     set (snd (read_several_reports demo_url server_double 123 [(2021, 1), (2021, 2)] 1 6 20 True None))"
  by code_simp

text \<open>
  C2, as amended. When the call returns, it returns the concatenated frame, and the number of
  days with a non-empty frame is reported on the console only, in the message "M out of N
  files loaded" with N the length of the list.
\<close>

theorem read_several_reports_prints_count:
  assumes "map (\<lambda>v. fst (read_report url_fintraffic srv tms_id (fst v) (snd v) dir hour_from
                         hour_to delete_if_faulty None)) year_day_list = map Inr dfs"
    and "fst (read_several_reports url_fintraffic srv tms_id year_day_list dir hour_from hour_to
                delete_if_faulty save_name) = Inr df"
  shows "df = concat dfs \<and>
         Print (LoadingSuccessful (length (filter (\<lambda>d. d \<noteq> []) dfs)) (length year_day_list))
           \<in> set (snd (read_several_reports url_fintraffic srv tms_id year_day_list dir hour_from
                         hour_to delete_if_faulty save_name))"
proof -
  have "fst (load_days url_fintraffic srv tms_id dir hour_from hour_to delete_if_faulty
               year_day_list ([], 0)) =
          Inr (concat dfs, length (filter (\<lambda>d. d \<noteq> []) dfs))"
    using load_days_returns [OF assms(1), of "[]" 0] by simp
  then show ?thesis
    using assms(2)
    by (auto simp: read_several_reports_def Let_def
             split: prod.splits sum.splits option.splits if_splits)
qed

lemma demo_read_1_2:
  "fst (read_several_reports demo_url demo_server 123 [(2021, 1), (2021, 2)] 1 6 20 True None) =
     Inr demo_frame"
  by code_simp

theorem read_several_reports_prints_count_witness:
  "map (\<lambda>v. fst (read_report demo_url demo_server 123 (fst v) (snd v) 1 6 20 True None))
     [(2021, 1), (2021, 2)] = map Inr [demo_frame, []] \<and>
   fst (read_several_reports demo_url demo_server 123 [(2021, 1), (2021, 2)] 1 6 20 True None) =
     Inr demo_frame \<and>
   Print (LoadingSuccessful 1 2)
     \<in> set (snd (read_several_reports demo_url demo_server 123 [(2021, 1), (2021, 2)] 1 6 20
                   True None))"
proof -
  have ne: "demo_frame \<noteq> []"
    by (simp add: demo_frame_def)
  from read_several_reports_prints_count [OF demo_days_1_2 demo_read_1_2] ne
  have "Print (LoadingSuccessful 1 2)
     \<in> set (snd (read_several_reports demo_url demo_server 123 [(2021, 1), (2021, 2)] 1 6 20
                   True None))"
    by (simp add: numeral_2_eq_2)
  with demo_days_1_2 demo_read_1_2 show ?thesis by blast
qed

lemma read_report_rejects:
  assumes "check_report_args year day dir hour_from hour_to = Some a"
  shows "read_report url_fintraffic srv tms_id year day dir hour_from hour_to delete_if_faulty
           save_name = (Inl (AssertionError a), [Print (TryingToLoad day year)])"
  using assms by (simp add: read_report_def)

lemma check_report_args_bad_day:
  assumes "check_several_args dir hour_from hour_to = None" and "\<not> (1 \<le> day \<and> day \<le> 366)"
  shows "check_report_args year day dir hour_from hour_to = Some DayIncorrect"
  using assms by (auto simp: check_several_args_def check_report_args_def split: if_splits)

lemma load_days_bad_day:
  assumes "check_several_args dir hour_from hour_to = None" and "\<not> (1 \<le> day \<and> day \<le> 366)"
  shows "load_days url_fintraffic srv tms_id dir hour_from hour_to delete_if_faulty
           ((year, day) # post) st = (Inl (AssertionError DayIncorrect), [Print (TryingToLoad day year)])"
  using read_report_rejects [OF check_report_args_bad_day [OF assms]]
  by (cases st) (simp add: load_day_def)

text \<open>
  C6. The claim is that an out-of-range day makes \<^verbatim>\<open>read_several_reports\<close> fail before any
  retrieval. The day is checked by \<^verbatim>\<open>read_report\<close>, when the loop reaches it: with day 1
  followed by day 400, the report of day 1 is requested and downloaded before the call fails.
\<close>

theorem demo_bad_day_after_retrieval:
  "fst (read_several_reports demo_url demo_server 123 [(2021, 1), (2021, 400)] 1 6 20 True None) =
     Inl (AssertionError DayIncorrect) \<and>
   filter is_retrieval
     (snd (read_several_reports demo_url demo_server 123 [(2021, 1), (2021, 400)] 1 6 20 True None)) =
     [HttpGet ''lamraw_123_21_1.csv'', ReadCsv ''lamraw_123_21_1.csv'']"
  by code_simp

text \<open>
  C6, as amended. \<^verbatim>\<open>read_report\<close> fails with an assertion error and without any retrieval
  when the hour window, the day or the direction is invalid. \<^verbatim>\<open>read_several_reports\<close> fails
  with an assertion error and without any effect at all when the hour window or the direction
  is invalid. When these are valid and the list holds an out-of-range day,
  \<^verbatim>\<open>read_several_reports\<close> fails, and its retrievals are those of the days before that day:
  none is made for the day itself or for a later day.
\<close>

theorem validation_before_retrieval:
  "(\<not> (0 \<le> hour_from \<and> hour_from < 24) \<or> \<not> (0 < hour_to \<and> hour_to \<le> 24) \<or> \<not> hour_from < hour_to
      \<or> \<not> (1 \<le> day \<and> day \<le> 366) \<or> \<not> (dir = 1 \<or> dir = 2) \<longrightarrow>
     (\<exists>a. fst (read_report url_fintraffic srv tms_id year day dir hour_from hour_to
                  delete_if_faulty save_name) = Inl (AssertionError a)) \<and>
     filter is_retrieval
       (snd (read_report url_fintraffic srv tms_id year day dir hour_from hour_to
               delete_if_faulty save_name)) = []) \<and>
   (\<not> (0 \<le> hour_from \<and> hour_from < 24) \<or> \<not> (0 < hour_to \<and> hour_to \<le> 24) \<or> \<not> hour_from < hour_to
      \<or> \<not> (dir = 1 \<or> dir = 2) \<longrightarrow>
     (\<exists>a. fst (read_several_reports url_fintraffic srv tms_id year_day_list dir hour_from hour_to
                  delete_if_faulty save_name) = Inl (AssertionError a)) \<and>
     snd (read_several_reports url_fintraffic srv tms_id year_day_list dir hour_from hour_to
            delete_if_faulty save_name) = []) \<and>
   (0 \<le> hour_from \<and> hour_from < 24 \<and> 0 < hour_to \<and> hour_to \<le> 24 \<and> hour_from < hour_to
      \<and> (dir = 1 \<or> dir = 2) \<and> \<not> (1 \<le> day \<and> day \<le> 366) \<longrightarrow>
     (\<exists>e. fst (read_several_reports url_fintraffic srv tms_id (pre @ (year, day) # post) dir
                  hour_from hour_to delete_if_faulty save_name) = Inl e) \<and>
     filter is_retrieval
       (snd (read_several_reports url_fintraffic srv tms_id (pre @ (year, day) # post) dir
               hour_from hour_to delete_if_faulty save_name)) =
     filter is_retrieval
       (snd (load_days url_fintraffic srv tms_id dir hour_from hour_to delete_if_faulty pre
               ([], 0))))"
proof (intro conjI impI)
  assume bad: "\<not> (0 \<le> hour_from \<and> hour_from < 24) \<or> \<not> (0 < hour_to \<and> hour_to \<le> 24)
      \<or> \<not> hour_from < hour_to \<or> \<not> (1 \<le> day \<and> day \<le> 366) \<or> \<not> (dir = 1 \<or> dir = 2)"
  then have "check_report_args year day dir hour_from hour_to \<noteq> None"
    by (auto simp: check_report_args_def)
  then obtain a where a: "check_report_args year day dir hour_from hour_to = Some a"
    by auto
  show "\<exists>a. fst (read_report url_fintraffic srv tms_id year day dir hour_from hour_to
                  delete_if_faulty save_name) = Inl (AssertionError a)"
    by (simp add: read_report_rejects [OF a])
  show "filter is_retrieval
       (snd (read_report url_fintraffic srv tms_id year day dir hour_from hour_to
               delete_if_faulty save_name)) = []"
    by (simp add: read_report_rejects [OF a] is_retrieval_def)
next
  assume bad: "\<not> (0 \<le> hour_from \<and> hour_from < 24) \<or> \<not> (0 < hour_to \<and> hour_to \<le> 24)
      \<or> \<not> hour_from < hour_to \<or> \<not> (dir = 1 \<or> dir = 2)"
  then have "check_several_args dir hour_from hour_to \<noteq> None"
    by (auto simp: check_several_args_def)
  then obtain a where a: "check_several_args dir hour_from hour_to = Some a"
    by auto
  show "\<exists>a. fst (read_several_reports url_fintraffic srv tms_id year_day_list dir hour_from hour_to
                  delete_if_faulty save_name) = Inl (AssertionError a)"
    by (simp add: read_several_reports_def a)
  show "snd (read_several_reports url_fintraffic srv tms_id year_day_list dir hour_from hour_to
            delete_if_faulty save_name) = []"
    by (simp add: read_several_reports_def a)
next
  assume ok: "0 \<le> hour_from \<and> hour_from < 24 \<and> 0 < hour_to \<and> hour_to \<le> 24 \<and> hour_from < hour_to
      \<and> (dir = 1 \<or> dir = 2) \<and> \<not> (1 \<le> day \<and> day \<le> 366)"
  then have args: "check_several_args dir hour_from hour_to = None"
    by (auto simp: check_several_args_def)
  from ok have day: "\<not> (1 \<le> day \<and> day \<le> 366)" by simp
  have run: "load_days url_fintraffic srv tms_id dir hour_from hour_to delete_if_faulty
               (pre @ (year, day) # post) ([], 0) =
             (case load_days url_fintraffic srv tms_id dir hour_from hour_to delete_if_faulty pre
                     ([], 0) of
                (Inl e, evs) \<Rightarrow> (Inl e, evs)
              | (Inr st', evs) \<Rightarrow>
                  (Inl (AssertionError DayIncorrect), evs @ [Print (TryingToLoad day year)]))"
    by (simp add: load_days_append load_days_bad_day [OF args day] del: load_days.simps
             split: prod.splits sum.splits)
  show "\<exists>e. fst (read_several_reports url_fintraffic srv tms_id (pre @ (year, day) # post) dir
                  hour_from hour_to delete_if_faulty save_name) = Inl e"
    by (auto simp: read_several_reports_def args run simp del: load_days.simps
             split: prod.splits sum.splits)
  show "filter is_retrieval
       (snd (read_several_reports url_fintraffic srv tms_id (pre @ (year, day) # post) dir
               hour_from hour_to delete_if_faulty save_name)) =
     filter is_retrieval
       (snd (load_days url_fintraffic srv tms_id dir hour_from hour_to delete_if_faulty pre
               ([], 0)))"
    by (auto simp: read_several_reports_def args run is_retrieval_def simp del: load_days.simps
             split: prod.splits sum.splits)
qed

theorem validation_before_retrieval_witness:
  "(\<exists>a. fst (read_report demo_url demo_server 123 2021 400 1 6 20 True None) =
          Inl (AssertionError a)) \<and>
   filter is_retrieval (snd (read_report demo_url demo_server 123 2021 400 1 6 20 True None)) = [] \<and>
   (\<exists>a. fst (read_several_reports demo_url demo_server 123 [(2021, 1)] 1 25 20 True None) =
          Inl (AssertionError a)) \<and>
   snd (read_several_reports demo_url demo_server 123 [(2021, 1)] 1 25 20 True None) = [] \<and>
   (\<exists>e. fst (read_several_reports demo_url demo_server 123 ([(2021, 1)] @ (2021, 400) # [])
                1 6 20 True None) = Inl e) \<and>
   filter is_retrieval
     (snd (read_several_reports demo_url demo_server 123 ([(2021, 1)] @ (2021, 400) # [])
             1 6 20 True None)) =
   filter is_retrieval (snd (load_days demo_url demo_server 123 1 6 20 True [(2021, 1)] ([], 0)))"
proof -
  note day = validation_before_retrieval
    [where hour_from = 6 and hour_to = 20 and day = 400 and dir = 1 and year = 2021
       and url_fintraffic = demo_url and srv = demo_server and tms_id = 123
       and delete_if_faulty = True and save_name = None and pre = "[(2021, 1)]" and post = "[]"
       and year_day_list = "[(2021, 1)]"]
  note hour = validation_before_retrieval
    [where hour_from = 25 and hour_to = 20 and day = 1 and dir = 1 and year = 2021
       and url_fintraffic = demo_url and srv = demo_server and tms_id = 123
       and delete_if_faulty = True and save_name = None and pre = "[]" and post = "[]"
       and year_day_list = "[(2021, 1)]"]
  from day hour show ?thesis by simp
qed

section \<open>The empty day and the failed retrieval\<close>

lemma save_frame_no_warning: "Warn m \<notin> set (snd (save_frame srv save_name df))"
  by (auto simp: save_frame_def split: option.splits)

text \<open>
  C9. For arguments that pass the asserts, \<^verbatim>\<open>read_report\<close> returns the empty frame together
  with a warning exactly when the status of the report's URL is 404. When the status request
  raises, or the status is another one and the download raises, the call raises that
  exception: it is not turned into an empty day.
\<close>

theorem read_report_empty_day_vs_error:
  assumes "check_report_args year day dir hour_from hour_to = None"
  shows "((fst (read_report url_fintraffic srv tms_id year day dir hour_from hour_to
                  delete_if_faulty save_name) = Inr [] \<and>
           (\<exists>m. Warn m \<in> set (snd (read_report url_fintraffic srv tms_id year day dir hour_from
                                        hour_to delete_if_faulty save_name))))
          \<longleftrightarrow> status_code srv (make_url url_fintraffic tms_id year day) = Inr 404) \<and>
         (\<forall>e. status_code srv (make_url url_fintraffic tms_id year day) = Inl e \<longrightarrow>
               fst (read_report url_fintraffic srv tms_id year day dir hour_from hour_to
                      delete_if_faulty save_name) = Inl e) \<and>
         (\<forall>code e. status_code srv (make_url url_fintraffic tms_id year day) = Inr code \<and>
                    code \<noteq> 404 \<and> read_csv srv (make_url url_fintraffic tms_id year day) = Inl e \<longrightarrow>
               fst (read_report url_fintraffic srv tms_id year day dir hour_from hour_to
                      delete_if_faulty save_name) = Inl e)"
proof (intro conjI allI impI iffI)
  assume "fst (read_report url_fintraffic srv tms_id year day dir hour_from hour_to
                  delete_if_faulty save_name) = Inr [] \<and>
           (\<exists>m. Warn m \<in> set (snd (read_report url_fintraffic srv tms_id year day dir hour_from
                                        hour_to delete_if_faulty save_name)))"
  then show "status_code srv (make_url url_fintraffic tms_id year day) = Inr 404"
    using assms save_frame_no_warning
    by (auto simp: read_report_def Let_def split: sum.splits option.splits if_splits)
next
  assume "status_code srv (make_url url_fintraffic tms_id year day) = Inr 404"
  then show "fst (read_report url_fintraffic srv tms_id year day dir hour_from hour_to
                  delete_if_faulty save_name) = Inr []"
    using assms by (simp add: read_report_def)
next
  assume "status_code srv (make_url url_fintraffic tms_id year day) = Inr 404"
  then have "Warn (DataDoesNotExist tms_id day year)
               \<in> set (snd (read_report url_fintraffic srv tms_id year day dir hour_from
                             hour_to delete_if_faulty save_name))"
    using assms by (simp add: read_report_def)
  then show "\<exists>m. Warn m \<in> set (snd (read_report url_fintraffic srv tms_id year day dir hour_from
                                        hour_to delete_if_faulty save_name))"
    by blast
next
  fix e
  assume "status_code srv (make_url url_fintraffic tms_id year day) = Inl e"
  then show "fst (read_report url_fintraffic srv tms_id year day dir hour_from hour_to
                      delete_if_faulty save_name) = Inl e"
    using assms by (simp add: read_report_def)
next
  fix code e
  assume "status_code srv (make_url url_fintraffic tms_id year day) = Inr code \<and>
                    code \<noteq> 404 \<and> read_csv srv (make_url url_fintraffic tms_id year day) = Inl e"
  then show "fst (read_report url_fintraffic srv tms_id year day dir hour_from hour_to
                      delete_if_faulty save_name) = Inl e"
    using assms by (simp add: read_report_def Let_def)
qed

lemma demo_status_day2: "status_code demo_server (make_url demo_url 123 2021 2) = Inr 404"
  by code_simp

lemma demo_status_day3:
  "status_code demo_server (make_url demo_url 123 2021 3) = Inr 500 \<and> (500 :: int) \<noteq> 404 \<and>
   read_csv demo_server (make_url demo_url 123 2021 3) = Inl (LibraryError ''HTTP Error 500'')"
  by code_simp

theorem read_report_empty_day_vs_error_witness:
  "check_report_args 2021 2 1 6 20 = None \<and>
   status_code demo_server (make_url demo_url 123 2021 2) = Inr 404 \<and>
   fst (read_report demo_url demo_server 123 2021 2 1 6 20 True None) = Inr [] \<and>
   (\<exists>m. Warn m \<in> set (snd (read_report demo_url demo_server 123 2021 2 1 6 20 True None))) \<and>
   check_report_args 2021 3 1 6 20 = None \<and>
   fst (read_report demo_url demo_server 123 2021 3 1 6 20 True None) =
     Inl (LibraryError ''HTTP Error 500'')"
proof -
  have a2: "check_report_args 2021 2 1 6 20 = None"
    by (simp add: check_report_args_def)
  have a3: "check_report_args 2021 3 1 6 20 = None"
    by (simp add: check_report_args_def)
  from read_report_empty_day_vs_error [OF a2, of demo_url demo_server 123 True None]
    demo_status_day2
  have d2: "fst (read_report demo_url demo_server 123 2021 2 1 6 20 True None) = Inr [] \<and>
   (\<exists>m. Warn m \<in> set (snd (read_report demo_url demo_server 123 2021 2 1 6 20 True None)))"
    by blast
  from read_report_empty_day_vs_error [OF a3, of demo_url demo_server 123 True None]
    demo_status_day3
  have d3: "fst (read_report demo_url demo_server 123 2021 3 1 6 20 True None) =
     Inl (LibraryError ''HTTP Error 500'')"
    by blast
  from a2 a3 d2 d3 demo_status_day2 show ?thesis by blast
qed

section \<open>Properties of \<^verbatim>\<open>weighted_model\<close>\<close>

text \<open>
  A loop that ends without an exception has appended one solved model and one duration per
  quantile, in the order of the list; the object's other attributes are as before.
\<close>

lemma fit_taus_result:
  assumes "fit_taus slv clock email taus n self = (None, self', calls)"
  shows "\<exists>ms. bagged_model self' = bagged_model self @ ms \<and>
           time_weighted self' =
             time_weighted self @ map (\<lambda>i. clock (n + 2 * i + 1) - clock (n + 2 * i)) [0..<length taus] \<and>
           list_all2 (\<lambda>tau solved. \<exists>bag wt model.
                        bag_data self = Some bag \<and> weight self = Some wt \<and>
                        wCQR slv (centroid_flow bag) (centroid_density bag) wt tau = Inr model \<and>
                        optimize slv (model\<lparr>beta_lb := None\<rparr>) email = Inr solved) taus ms"
  using assms
proof (induction taus arbitrary: n self self' calls)
  case Nil
  then show ?case by simp
next
  case (Cons tau taus)
  from Cons.prems obtain bag wt model solved calls' where
    bag: "bag_data self = Some bag" and wt: "weight self = Some wt"
    and model: "wCQR slv (centroid_flow bag) (centroid_density bag) wt tau = Inr model"
    and solved: "optimize slv (model\<lparr>beta_lb := None\<rparr>) email = Inr solved"
    and rest: "fit_taus slv clock email taus (n + 2)
                 (self\<lparr>bagged_model := bagged_model self @ [solved],
                       time_weighted := time_weighted self @ [clock (n + 1) - clock n]\<rparr>) =
               (None, self', calls')"
    by (auto simp: Let_def split: option.splits sum.splits prod.splits)
  from Cons.IH [OF rest] obtain ms where
    ms: "bagged_model self' = (bagged_model self @ [solved]) @ ms"
    and ds: "time_weighted self' =
               (time_weighted self @ [clock (n + 1) - clock n]) @
               map (\<lambda>i. clock (n + 2 + 2 * i + 1) - clock (n + 2 + 2 * i)) [0..<length taus]"
    and all: "list_all2 (\<lambda>tau solved. \<exists>bag wt model.
                        bag_data self = Some bag \<and> weight self = Some wt \<and>
                        wCQR slv (centroid_flow bag) (centroid_density bag) wt tau = Inr model \<and>
                        optimize slv (model\<lparr>beta_lb := None\<rparr>) email = Inr solved) taus ms"
    by auto
  have shift: "map (\<lambda>i. clock (n + 2 * i + 1) - clock (n + 2 * i)) [0..<length (tau # taus)] =
               (clock (n + 1) - clock n) #
               map (\<lambda>i. clock (n + 2 + 2 * i + 1) - clock (n + 2 + 2 * i)) [0..<length taus]"
  proof -
    have "[0..<length (tau # taus)] = 0 # map Suc [0..<length taus]"
      by (simp add: upt_conv_Cons map_Suc_upt del: upt_Suc)
    then show ?thesis by (simp add: comp_def del: upt_Suc)
  qed
  show ?case
  proof (intro exI conjI)
    show "bagged_model self' = bagged_model self @ (solved # ms)"
      using ms by simp
    show "time_weighted self' =
             time_weighted self @
             map (\<lambda>i. clock (n + 2 * i + 1) - clock (n + 2 * i)) [0..<length (tau # taus)]"
      unfolding shift using ds by simp
    show "list_all2 (\<lambda>tau solved. \<exists>bag wt model.
                        bag_data self = Some bag \<and> weight self = Some wt \<and>
                        wCQR slv (centroid_flow bag) (centroid_density bag) wt tau = Inr model \<and>
                        optimize slv (model\<lparr>beta_lb := None\<rparr>) email = Inr solved)
            (tau # taus) (solved # ms)"
      using all bag wt model solved by simp
  qed
qed

text \<open>
  C7. A call of \<^verbatim>\<open>weighted_model\<close> that returns, for a list of k quantiles (the argument, or
  \<^verbatim>\<open>self.tau_list\<close> when there is none), leaves exactly k models in \<^verbatim>\<open>bagged_model\<close>, the
  i-th of them the solved model built for the i-th quantile, and exactly k durations in
  \<^verbatim>\<open>time_weighted\<close>, the i-th the difference of the two clock readings around the i-th fit.
\<close>

theorem weighted_model_one_model_per_tau:
  assumes "weighted_model slv clock tau_arg email n self = (None, self', calls)"
    and "taus = (case tau_arg of None \<Rightarrow> tau_list self | Some l \<Rightarrow> l)"
  shows "length (bagged_model self') = length taus \<and>
         length (time_weighted self') = length taus \<and>
         list_all2 (\<lambda>tau solved. \<exists>bag wt model.
                      bag_data self = Some bag \<and> weight self = Some wt \<and>
                      wCQR slv (centroid_flow bag) (centroid_density bag) wt tau = Inr model \<and>
                      optimize slv (model\<lparr>beta_lb := None\<rparr>) email = Inr solved)
           taus (bagged_model self') \<and>
         time_weighted self' =
           map (\<lambda>i. clock (n + 2 * i + 1) - clock (n + 2 * i)) [0..<length taus]"
proof -
  from assms have run:
    "fit_taus slv clock email taus n (self\<lparr>bagged_model := [], time_weighted := []\<rparr>) =
       (None, self', calls)"
    by (cases tau_arg) (simp_all add: weighted_model_def Let_def)
  from fit_taus_result [OF run] obtain ms where
    ms: "bagged_model self' = ms"
    and ds: "time_weighted self' =
               map (\<lambda>i. clock (n + 2 * i + 1) - clock (n + 2 * i)) [0..<length taus]"
    and all: "list_all2 (\<lambda>tau solved. \<exists>bag wt model.
                      bag_data self = Some bag \<and> weight self = Some wt \<and>
                      wCQR slv (centroid_flow bag) (centroid_density bag) wt tau = Inr model \<and>
                      optimize slv (model\<lparr>beta_lb := None\<rparr>) email = Inr solved) taus ms"
    by auto
  from all have "length ms = length taus"
    by (simp add: list_all2_lengthD)
  with ms ds all show ?thesis by simp
qed

text \<open>The demo station, fitted for three quantiles, returns.\<close>

lemma demo_fit:
  "weighted_model demo_solver demo_clock (Some [1 / 4, 1 / 2, 3 / 4]) None 0 demo_tms =
     (None,
      snd (weighted_model demo_solver demo_clock (Some [1 / 4, 1 / 2, 3 / 4]) None 0 demo_tms))"
  by code_simp

theorem weighted_model_one_model_per_tau_witness:
  "fst (weighted_model demo_solver demo_clock (Some [1 / 4, 1 / 2, 3 / 4]) None 0 demo_tms) = None \<and>
   length (bagged_model (fst (snd (weighted_model demo_solver demo_clock
             (Some [1 / 4, 1 / 2, 3 / 4]) None 0 demo_tms)))) = 3 \<and>
   length (time_weighted (fst (snd (weighted_model demo_solver demo_clock
             (Some [1 / 4, 1 / 2, 3 / 4]) None 0 demo_tms)))) = 3"
proof -
  obtain self' calls where
    sc: "snd (weighted_model demo_solver demo_clock (Some [1 / 4, 1 / 2, 3 / 4]) None 0 demo_tms) =
           (self', calls)"
    by (cases "snd (weighted_model demo_solver demo_clock (Some [1 / 4, 1 / 2, 3 / 4]) None 0
                      demo_tms)")
  from demo_fit sc have run:
    "weighted_model demo_solver demo_clock (Some [1 / 4, 1 / 2, 3 / 4]) None 0 demo_tms =
       (None, self', calls)"
    by simp
  from weighted_model_one_model_per_tau [OF run, of "[1 / 4, 1 / 2, 3 / 4]"]
  have "length (bagged_model self') = 3 \<and> length (time_weighted self') = 3"
    by simp
  with run show ?thesis by simp
qed

text \<open>
  In the calls of any run, returned or not: a call of \<^verbatim>\<open>optimize\<close> is on a model without
  lower bound and comes right after the constructor and \<^verbatim>\<open>setlb(None)\<close>.
\<close>

lemma fit_taus_optimize_after_setlb:
  assumes "fit_taus slv clock email taus n self = (err, self', calls)"
    and "calls = pre @ Optimize m e # post"
  shows "beta_lb m = None \<and> (\<exists>pre' ys xs ws t. pre = pre' @ [Construct ys xs ws t, SetLb None])"
  using assms
proof (induction taus arbitrary: n self err self' calls pre)
  case Nil
  then show ?case by simp
next
  case (Cons tau taus)
  show ?case
  proof (cases "bag_data self")
    case None
    with Cons.prems show ?thesis by (simp add: Let_def)
  next
    case (Some bag)
    note bag = this
    show ?thesis
    proof (cases "weight self")
      case None
      with bag Cons.prems show ?thesis by (simp add: Let_def)
    next
      case (Some wt)
      note wt = this
      show ?thesis
      proof (cases "wCQR slv (centroid_flow bag) (centroid_density bag) wt tau")
        case (Inl x)
        with bag wt Cons.prems show ?thesis
          by (auto simp: Let_def Cons_eq_append_conv)
      next
        case (Inr model)
        note model = this
        let ?blk = "[Construct (centroid_flow bag) (centroid_density bag) wt tau, SetLb None,
                     Optimize (model\<lparr>beta_lb := None\<rparr>) email]"
        show ?thesis
        proof (cases "optimize slv (model\<lparr>beta_lb := None\<rparr>) email")
          case (Inl x)
          with bag wt model Cons.prems have "?blk = pre @ Optimize m e # post"
            by (simp add: Let_def)
          then have "pre = [Construct (centroid_flow bag) (centroid_density bag) wt tau, SetLb None]
                       \<and> m = model\<lparr>beta_lb := None\<rparr>"
            by (auto simp: Cons_eq_append_conv)
          then show ?thesis by simp
        next
          case (Inr solved)
          with bag wt model Cons.prems obtain calls' where
            rest: "fit_taus slv clock email taus (n + 2)
                     (self\<lparr>bagged_model := bagged_model self @ [solved],
                           time_weighted := time_weighted self @ [clock (n + 1) - clock n]\<rparr>) =
                   (err, self', calls')"
            and calls: "?blk @ calls' = pre @ Optimize m e # post"
            by (auto simp: Let_def split: prod.splits)
          from calls consider
            (first) "pre = [Construct (centroid_flow bag) (centroid_density bag) wt tau, SetLb None]"
                    "m = model\<lparr>beta_lb := None\<rparr>"
          | (later) pre2 where "pre = ?blk @ pre2" "calls' = pre2 @ Optimize m e # post"
            by (auto simp: Cons_eq_append_conv)
          then show ?thesis
          proof cases
            case first
            then show ?thesis by simp
          next
            case later
            from Cons.IH [OF rest later(2)] later(1) show ?thesis by auto
          qed
        qed
      qed
    qed
  qed
qed

text \<open>The calls of a run that returns: the three calls of every quantile, in order.\<close>

lemma fit_taus_calls:
  assumes "fit_taus slv clock email taus n self = (None, self', calls)"
    and "bag_data self = Some bag" and "weight self = Some wt"
  shows "calls =
           concat (map (\<lambda>tau.
             case wCQR slv (centroid_flow bag) (centroid_density bag) wt tau of
               Inl x \<Rightarrow> [Construct (centroid_flow bag) (centroid_density bag) wt tau]
             | Inr model \<Rightarrow> [Construct (centroid_flow bag) (centroid_density bag) wt tau,
                              SetLb None, Optimize (model\<lparr>beta_lb := None\<rparr>) email]) taus) \<and>
         (\<forall>tau \<in> set taus. \<exists>model solved.
            wCQR slv (centroid_flow bag) (centroid_density bag) wt tau = Inr model \<and>
            optimize slv (model\<lparr>beta_lb := None\<rparr>) email = Inr solved)"
  using assms
proof (induction taus arbitrary: n self self' calls)
  case Nil
  then show ?case by simp
next
  case (Cons tau taus)
  from Cons.prems obtain model solved calls' where
    model: "wCQR slv (centroid_flow bag) (centroid_density bag) wt tau = Inr model"
    and solved: "optimize slv (model\<lparr>beta_lb := None\<rparr>) email = Inr solved"
    and rest: "fit_taus slv clock email taus (n + 2)
                 (self\<lparr>bagged_model := bagged_model self @ [solved],
                       time_weighted := time_weighted self @ [clock (n + 1) - clock n]\<rparr>) =
               (None, self', calls')"
    and calls: "calls = [Construct (centroid_flow bag) (centroid_density bag) wt tau, SetLb None,
                         Optimize (model\<lparr>beta_lb := None\<rparr>) email] @ calls'"
    by (auto simp: Let_def split: option.splits sum.splits prod.splits)
  from Cons.IH [OF rest] Cons.prems(2,3) model solved calls show ?case by simp
qed

text \<open>
  C8. In every run of \<^verbatim>\<open>weighted_model\<close>, each call of \<^verbatim>\<open>optimize\<close> is made on a model whose
  lower bound is \<open>None\<close> and directly follows the construction of that model and the call
  \<^verbatim>\<open>setlb(None)\<close>. In a run that returns, the calls are, for every quantile of the list in
  order, the constructor, \<^verbatim>\<open>setlb(None)\<close> and \<^verbatim>\<open>optimize\<close>.
\<close>

theorem weighted_model_unbounds_before_solve:
  assumes "weighted_model slv clock tau_arg email n self = (err, self', calls)"
    and "taus = (case tau_arg of None \<Rightarrow> tau_list self | Some l \<Rightarrow> l)"
  shows "(\<forall>pre m e post. calls = pre @ Optimize m e # post \<longrightarrow>
            beta_lb m = None \<and>
            (\<exists>pre' ys xs ws t. pre = pre' @ [Construct ys xs ws t, SetLb None])) \<and>
         (\<forall>bag wt. err = None \<and> bag_data self = Some bag \<and> weight self = Some wt \<longrightarrow>
            calls =
              concat (map (\<lambda>tau.
                case wCQR slv (centroid_flow bag) (centroid_density bag) wt tau of
                  Inl x \<Rightarrow> [Construct (centroid_flow bag) (centroid_density bag) wt tau]
                | Inr model \<Rightarrow> [Construct (centroid_flow bag) (centroid_density bag) wt tau,
                                 SetLb None, Optimize (model\<lparr>beta_lb := None\<rparr>) email]) taus) \<and>
            (\<forall>tau \<in> set taus. \<exists>model solved.
               wCQR slv (centroid_flow bag) (centroid_density bag) wt tau = Inr model \<and>
               optimize slv (model\<lparr>beta_lb := None\<rparr>) email = Inr solved))"
proof -
  from assms have run:
    "fit_taus slv clock email taus n (self\<lparr>bagged_model := [], time_weighted := []\<rparr>) =
       (err, self', calls)"
    by (cases tau_arg) (simp_all add: weighted_model_def Let_def)
  have order: "beta_lb m = None \<and>
            (\<exists>pre' ys xs ws t. pre = pre' @ [Construct ys xs ws t, SetLb None])"
    if "calls = pre @ Optimize m e # post" for pre m e post
    using fit_taus_optimize_after_setlb [OF run that] .
  have every: "calls =
              concat (map (\<lambda>tau.
                case wCQR slv (centroid_flow bag) (centroid_density bag) wt tau of
                  Inl x \<Rightarrow> [Construct (centroid_flow bag) (centroid_density bag) wt tau]
                | Inr model \<Rightarrow> [Construct (centroid_flow bag) (centroid_density bag) wt tau,
                                 SetLb None, Optimize (model\<lparr>beta_lb := None\<rparr>) email]) taus) \<and>
            (\<forall>tau \<in> set taus. \<exists>model solved.
               wCQR slv (centroid_flow bag) (centroid_density bag) wt tau = Inr model \<and>
               optimize slv (model\<lparr>beta_lb := None\<rparr>) email = Inr solved)"
    if "err = None \<and> bag_data self = Some bag \<and> weight self = Some wt" for bag wt
    using fit_taus_calls [of slv clock email taus n
        "self\<lparr>bagged_model := [], time_weighted := []\<rparr>" self' calls bag wt] run that
    by simp
  from order every show ?thesis by blast
qed

lemma demo_fit_default:
  "weighted_model demo_solver demo_clock None None 0 demo_tms =
     (None, snd (weighted_model demo_solver demo_clock None None 0 demo_tms))"
  by code_simp

theorem weighted_model_unbounds_before_solve_witness:
  "fst (weighted_model demo_solver demo_clock None None 0 demo_tms) = None \<and>
   snd (snd (weighted_model demo_solver demo_clock None None 0 demo_tms)) =
     [Construct [300, 400] [10, 20] [1 / 2, 1 / 2] (1 / 2), SetLb None,
      Optimize \<lparr>model_y = [300, 400], model_x = [10, 20], model_w = [1 / 2, 1 / 2],
                model_tau = 1 / 2, beta_lb = None, frontier = None\<rparr> None]"
proof -
  obtain self' calls where
    sc: "snd (weighted_model demo_solver demo_clock None None 0 demo_tms) = (self', calls)"
    by (cases "snd (weighted_model demo_solver demo_clock None None 0 demo_tms)")
  from demo_fit_default sc have run:
    "weighted_model demo_solver demo_clock None None 0 demo_tms = (None, self', calls)"
    by simp
  have taus: "[1 / 2] = (case None of None \<Rightarrow> tau_list demo_tms | Some l \<Rightarrow> l)"
    by (simp add: demo_tms_def)
  have bag: "None = (None :: error option) \<and>
             bag_data demo_tms = Some \<lparr>centroid_density = [10, 20], centroid_flow = [300, 400]\<rparr> \<and>
             weight demo_tms = Some [1 / 2, 1 / 2]"
    by (simp add: demo_tms_def)
  from weighted_model_unbounds_before_solve [OF run taus] bag
  have "calls =
     [Construct [300, 400] [10, 20] [1 / 2, 1 / 2] (1 / 2), SetLb None,
      Optimize \<lparr>model_y = [300, 400], model_x = [10, 20], model_w = [1 / 2, 1 / 2],
                model_tau = 1 / 2, beta_lb = None, frontier = None\<rparr> None]"
    by (simp add: demo_solver_def)
  with run show ?thesis by simp
qed

text \<open>When bagging has run and the library raises for no quantile, the loop returns.\<close>

lemma fit_taus_total:
  assumes "bag_data self = Some bag" and "weight self = Some wt"
    and "\<forall>tau \<in> set taus. \<exists>model solved.
           wCQR slv (centroid_flow bag) (centroid_density bag) wt tau = Inr model \<and>
           optimize slv (model\<lparr>beta_lb := None\<rparr>) email = Inr solved"
  shows "fst (fit_taus slv clock email taus n self) = None"
  using assms
proof (induction taus arbitrary: n self)
  case Nil
  then show ?case by simp
next
  case (Cons tau taus)
  from Cons.prems(3) obtain model solved where
    model: "wCQR slv (centroid_flow bag) (centroid_density bag) wt tau = Inr model"
    and solved: "optimize slv (model\<lparr>beta_lb := None\<rparr>) email = Inr solved"
    by auto
  have "fst (fit_taus slv clock email taus (n + 2)
               (self\<lparr>bagged_model := bagged_model self @ [solved],
                     time_weighted := time_weighted self @ [clock (n + 1) - clock n]\<rparr>)) = None"
    using Cons.prems by (intro Cons.IH) auto
  then show ?case
    using Cons.prems(1,2) model solved
    by (auto simp: Let_def split: prod.splits)
qed

end
